theory Spec2Isabelle
  imports Complex_Main
begin

section \<open>JavaScript numbers\<close>

text \<open>
  The helpers of \<^verbatim>\<open>src/utils/helpers.js\<close> compute with JavaScript Numbers, that is
  IEEE 754 binary64 values. A finite double is a rational number, so a Number is
  modelled as \<open>NaN\<close>, an infinity, or \<open>Fin x\<close> with \<open>x\<close> the exact rational value.
  Arithmetic that rounds (\<open>*\<close>, \<open>/\<close>) computes the exact rational result and
  rounds it to the nearest double, ties to even (\<open>fl\<close>); comparison, \<open>%\<close>,
  \<open>Math.floor\<close> and \<open>Math.round\<close> are exact on doubles and need no rounding.

  The two zeros are not distinguished: \<open>-0\<close> and \<open>+0\<close> compare equal, are both falsy,
  print as \<open>0\<close>, and none of the modelled functions divides by a computed zero.
\<close>

datatype jsnum = NaN | PInf | NInf | Fin rat

definition round_half_even :: "rat \<Rightarrow> int" where
  "round_half_even y =
     (let f = \<lfloor>y\<rfloor>; r = y - of_int f
      in if r < 1 / 2 then f else if 1 / 2 < r then f + 1 else if even f then f else f + 1)"

text \<open>\<open>log_count b a\<close> is the number of digits of a positive integer \<open>a\<close> in base \<open>b\<close>.\<close>

function log_count :: "int \<Rightarrow> int \<Rightarrow> int" where
  "log_count b a = (if 1 < b \<and> 0 < a then log_count b (a div b) + 1 else 0)"
  by pat_completeness auto
termination
  by (relation "measure (\<lambda>(b, a). nat a)") (auto simp: int_div_less_self)

declare log_count.simps [simp del]

text \<open>\<open>ilog b x\<close> is the integer \<open>e\<close> with \<open>b ^ e \<le> x < b ^ (e + 1)\<close>, for \<open>0 < x\<close>.\<close>

definition ilog :: "int \<Rightarrow> rat \<Rightarrow> int" where
  "ilog b x =
     (if 1 \<le> x then log_count b \<lfloor>x\<rfloor> - 1
      else - log_count b (\<lceil>1 / x\<rceil> - 1))"

definition ipow :: "rat \<Rightarrow> int \<Rightarrow> rat" where
  "ipow b e = (if 0 \<le> e then b ^ nat e else 1 / b ^ nat (- e))"

text \<open>
  Rounding a positive rational to binary64: 53 significant bits, least normal exponent
  \<open>-1022\<close> (below it the spacing stays \<open>2 ^ -1074\<close>), overflow to infinity when the
  rounded value reaches \<open>2 ^ 1024\<close>, that is when the exponent is at least 1024, or is
  1023 and the significand rounds up to \<open>2 ^ 53 = 9007199254740992\<close>.
\<close>

definition fl_pos :: "rat \<Rightarrow> jsnum" where
  "fl_pos x =
     (let e = ilog 2 x;
          q = ipow 2 (max e (- 1022) - 52);
          n = round_half_even (x / q)
      in if 1024 \<le> e \<or> (e = 1023 \<and> 9007199254740992 \<le> n) then PInf
         else Fin (of_int n * q))"

definition fl :: "rat \<Rightarrow> jsnum" where
  "fl x = (if x = 0 then Fin 0
           else if 0 < x then fl_pos x
           else (case fl_pos (- x) of PInf \<Rightarrow> NInf | Fin r \<Rightarrow> Fin (- r) | y \<Rightarrow> y))"

definition is_double :: "rat \<Rightarrow> bool" where
  "is_double x = (fl x = Fin x)"

text \<open>\<open>a < b\<close> on Numbers: false as soon as one side is \<open>NaN\<close>.\<close>

fun js_lt :: "jsnum \<Rightarrow> jsnum \<Rightarrow> bool" where
  "js_lt NaN _ = False"
| "js_lt _ NaN = False"
| "js_lt (Fin a) (Fin b) = (a < b)"
| "js_lt PInf _ = False"
| "js_lt _ PInf = True"
| "js_lt _ NInf = False"
| "js_lt NInf _ = True"

fun js_neg :: "jsnum \<Rightarrow> jsnum" where
  "js_neg NaN = NaN"
| "js_neg PInf = NInf"
| "js_neg NInf = PInf"
| "js_neg (Fin a) = Fin (- a)"

text \<open>\<open>a * b\<close>: an infinity times zero is \<open>NaN\<close>; the sign of an infinite product follows the signs.\<close>

fun js_sign_pos :: "jsnum \<Rightarrow> bool" where
  "js_sign_pos PInf = True"
| "js_sign_pos NInf = False"
| "js_sign_pos (Fin a) = (0 < a)"
| "js_sign_pos NaN = False"

fun js_mul :: "jsnum \<Rightarrow> jsnum \<Rightarrow> jsnum" where
  "js_mul NaN _ = NaN"
| "js_mul _ NaN = NaN"
| "js_mul (Fin a) (Fin b) = fl (a * b)"
| "js_mul a b =
     (if a = Fin 0 \<or> b = Fin 0 then NaN
      else if js_sign_pos a = js_sign_pos b then PInf else NInf)"

text \<open>\<open>a / b\<close>; a zero divisor is taken as \<open>+0\<close>.\<close>

fun js_div :: "jsnum \<Rightarrow> jsnum \<Rightarrow> jsnum" where
  "js_div NaN _ = NaN"
| "js_div _ NaN = NaN"
| "js_div (Fin a) (Fin b) =
     (if b = 0 then (if a = 0 then NaN else if 0 < a then PInf else NInf) else fl (a / b))"
| "js_div (Fin a) _ = Fin 0"
| "js_div a (Fin b) = (if js_sign_pos a = (0 \<le> b) then PInf else NInf)"
| "js_div _ _ = NaN"

text \<open>
  \<open>a % b\<close>: the remainder of the truncating division, with the sign of the dividend;
  it is exact, so no rounding step.
\<close>

definition trunc :: "rat \<Rightarrow> int" where
  "trunc x = (if 0 \<le> x then \<lfloor>x\<rfloor> else \<lceil>x\<rceil>)"

fun js_rem :: "jsnum \<Rightarrow> jsnum \<Rightarrow> jsnum" where
  "js_rem (Fin a) (Fin b) = (if b = 0 then NaN else Fin (a - b * of_int (trunc (a / b))))"
| "js_rem (Fin a) PInf = Fin a"
| "js_rem (Fin a) NInf = Fin a"
| "js_rem _ _ = NaN"

fun Math_floor :: "jsnum \<Rightarrow> jsnum" where
  "Math_floor (Fin a) = Fin (of_int \<lfloor>a\<rfloor>)"
| "Math_floor x = x"

text \<open>\<open>Math.round\<close> rounds halves towards \<open>+\<infinity>\<close>.\<close>

fun Math_round :: "jsnum \<Rightarrow> jsnum" where
  "Math_round (Fin a) = Fin (of_int \<lfloor>a + 1 / 2\<rfloor>)"
| "Math_round x = x"

section \<open>Numbers and strings\<close>

text \<open>
  A JavaScript string is modelled as a \<open>string\<close> whose characters are the code units
  \<open>0 .. 255\<close>.
\<close>

definition digit_char :: "int \<Rightarrow> char" where
  "digit_char d = char_of (48 + d)"

text \<open>The decimal digits of a natural number, held as an integer.\<close>

function digits_of :: "int \<Rightarrow> string" where
  "digits_of n = (if n < 10 then [digit_char n] else digits_of (n div 10) @ [digit_char (n mod 10)])"
  by pat_completeness auto
termination
  by (relation "measure nat") (auto simp: int_div_less_self)

declare digits_of.simps [simp del]

text \<open>
  \<open>Number::toString\<close> (radix 10) of ECMA-262. For a positive finite \<open>x\<close> it takes the
  least number \<open>k\<close> of digits and the \<open>k\<close>-digit integer \<open>s\<close> such that
  \<open>s * 10 ^ (n - k)\<close> rounds to \<open>x\<close>, the nearest one to \<open>x\<close> when two qualify;
  a double never needs more than 17 digits.
\<close>

definition digits_candidate :: "rat \<Rightarrow> int \<Rightarrow> nat \<Rightarrow> (int \<times> int) option" where
  "digits_candidate x n k =
     (let u = ipow 10 (n - int k);
          lo = \<lfloor>x / u\<rfloor>;
          hi = lo + 1;
          lo_ok = (fl (of_int lo * u) = Fin x);
          hi_ok = (fl (of_int hi * u) = Fin x);
          pick_hi = (hi_ok \<and> (\<not> lo_ok \<or> of_int hi * u - x < x - of_int lo * u
                      \<or> (of_int hi * u - x = x - of_int lo * u \<and> even hi)))
      in if pick_hi then (if hi = 10 ^ k then Some (10 ^ (k - 1), n + 1) else Some (hi, n))
         else if lo_ok then Some (lo, n)
         else None)"

fun shortest_digits :: "rat \<Rightarrow> int \<Rightarrow> nat \<Rightarrow> nat \<Rightarrow> int \<times> int" where
  "shortest_digits x n k 0 = (\<lfloor>x / ipow 10 (n - int k)\<rfloor>, n)"
| "shortest_digits x n k (Suc fuel) =
     (case digits_candidate x n k of
        Some r \<Rightarrow> r
      | None \<Rightarrow> shortest_digits x n (Suc k) fuel)"

definition format_digits :: "string \<Rightarrow> int \<Rightarrow> string" where
  "format_digits ds n =
     (let k = int (length ds)
      in if k \<le> n \<and> n \<le> 21 then ds @ replicate (nat (n - k)) CHR ''0''
         else if 0 < n \<and> n \<le> 21 then take (nat n) ds @ ''.'' @ drop (nat n) ds
         else if - 6 < n \<and> n \<le> 0 then ''0.'' @ replicate (nat (- n)) CHR ''0'' @ ds
         else (if k = 1 then ds else take 1 ds @ ''.'' @ drop 1 ds)
              @ ''e'' @ (if 0 < n - 1 then ''+'' else ''-'') @ digits_of \<bar>n - 1\<bar>)"

definition Number_toString_pos :: "rat \<Rightarrow> string" where
  "Number_toString_pos x =
     (let n0 = ilog 10 x + 1;
          (s, n) = shortest_digits x n0 1 17
      in format_digits (digits_of s) n)"

fun Number_toString :: "jsnum \<Rightarrow> string" where
  "Number_toString NaN = ''NaN''"
| "Number_toString PInf = ''Infinity''"
| "Number_toString NInf = ''-Infinity''"
| "Number_toString (Fin x) =
     (if x = 0 then ''0''
      else if x < 0 then ''-'' @ Number_toString_pos (- x)
      else Number_toString_pos x)"

text \<open>
  \<open>Number.prototype.toFixed(f)\<close>: a non-finite value, or one with \<open>10 ^ 21 \<le> |x|\<close>,
  is printed by \<open>Number::toString\<close>; otherwise the integer \<open>n\<close> nearest to
  \<open>x * 10 ^ f\<close> (the larger one on a tie) is printed with a point before its last
  \<open>f\<close> digits.
\<close>

definition toFixed_digits :: "nat \<Rightarrow> rat \<Rightarrow> string" where
  "toFixed_digits f x =
     (let n = \<lfloor>x * 10 ^ f + 1 / 2\<rfloor>;
          m = digits_of n;
          m' = (if length m \<le> f then replicate (f + 1 - length m) CHR ''0'' @ m else m)
      in if f = 0 then m
         else take (length m' - f) m' @ ''.'' @ drop (length m' - f) m')"

fun Number_toFixed :: "jsnum \<Rightarrow> nat \<Rightarrow> string" where
  "Number_toFixed (Fin x) f =
     (let s = (if x < 0 then ''-'' else ''''); a = \<bar>x\<bar>
      in if 10 ^ 21 \<le> a then s @ Number_toString (Fin a) else s @ toFixed_digits f a)"
| "Number_toFixed x f = Number_toString x"

text \<open>
  \<open>StringToNumber\<close> of ECMA-262: the string is trimmed of white space; the empty string
  is \<open>0\<close>; \<open>0x\<close>, \<open>0o\<close> and \<open>0b\<close> introduce unsigned integers in radix 16, 8
  and 2; otherwise an optional sign is followed by \<open>Infinity\<close> or by a decimal literal
  with an optional fraction and exponent. Anything else is \<open>NaN\<close>. The white space
  characters among the code units \<open>0 .. 255\<close> are TAB, LF, VT, FF, CR, SP and NBSP.
\<close>

definition is_white :: "char \<Rightarrow> bool" where
  "is_white c = ((of_char c :: nat) \<in> {9, 10, 11, 12, 13, 32, 160})"

definition js_trim :: "string \<Rightarrow> string" where
  "js_trim s = rev (dropWhile is_white (rev (dropWhile is_white s)))"

definition digit_value :: "char \<Rightarrow> nat option" where
  "digit_value c =
     (let n = (of_char c :: nat)
      in if 48 \<le> n \<and> n \<le> 57 then Some (n - 48)
         else if 97 \<le> n \<and> n \<le> 102 then Some (n - 87)
         else if 65 \<le> n \<and> n \<le> 70 then Some (n - 55)
         else None)"

definition is_digit :: "nat \<Rightarrow> char \<Rightarrow> bool" where
  "is_digit radix c = (case digit_value c of None \<Rightarrow> False | Some d \<Rightarrow> d < radix)"

definition int_of_digits :: "nat \<Rightarrow> string \<Rightarrow> int" where
  "int_of_digits radix ds =
     foldl (\<lambda>a c. a * int radix + int (case digit_value c of None \<Rightarrow> 0 | Some d \<Rightarrow> d)) 0 ds"

definition parse_radix :: "nat \<Rightarrow> string \<Rightarrow> jsnum" where
  "parse_radix radix ds =
     (if ds \<noteq> [] \<and> list_all (is_digit radix) ds then fl (of_int (int_of_digits radix ds)) else NaN)"

definition parse_exponent :: "string \<Rightarrow> int option" where
  "parse_exponent r =
     (case r of
        [] \<Rightarrow> Some 0
      | c # r' \<Rightarrow>
          if c = CHR ''e'' \<or> c = CHR ''E'' then
            (let (neg, ds) = (case r' of
                                [] \<Rightarrow> (False, [])
                              | d # r'' \<Rightarrow> if d = CHR ''+'' then (False, r'')
                                           else if d = CHR ''-'' then (True, r'')
                                           else (False, r'))
             in if ds \<noteq> [] \<and> list_all (is_digit 10) ds
                then Some (if neg then - int_of_digits 10 ds else int_of_digits 10 ds)
                else None)
          else None)"

definition parse_decimal :: "string \<Rightarrow> rat option" where
  "parse_decimal u =
     (let ip = takeWhile (is_digit 10) u;
          r1 = dropWhile (is_digit 10) u;
          (fp, r2) = (case r1 of
                        [] \<Rightarrow> ([], r1)
                      | c # r \<Rightarrow> if c = CHR ''.''
                                 then (takeWhile (is_digit 10) r, dropWhile (is_digit 10) r)
                                 else ([], r1))
      in if ip = [] \<and> fp = [] then None
         else (case parse_exponent r2 of
                 None \<Rightarrow> None
               | Some e \<Rightarrow> Some (of_int (int_of_digits 10 (ip @ fp)) * ipow 10 (e - int (length fp)))))"

definition StringToNumber :: "string \<Rightarrow> jsnum" where
  "StringToNumber s =
     (let t = js_trim s
      in if t = [] then Fin 0
         else if take 2 t = ''0x'' \<or> take 2 t = ''0X'' then parse_radix 16 (drop 2 t)
         else if take 2 t = ''0o'' \<or> take 2 t = ''0O'' then parse_radix 8 (drop 2 t)
         else if take 2 t = ''0b'' \<or> take 2 t = ''0B'' then parse_radix 2 (drop 2 t)
         else (let (neg, u) = (if hd t = CHR ''+'' then (False, tl t)
                               else if hd t = CHR ''-'' then (True, tl t)
                               else (False, t))
               in if u = ''Infinity'' then (if neg then NInf else PInf)
                  else (case parse_decimal u of
                          None \<Rightarrow> NaN
                        | Some v \<Rightarrow> if neg then js_neg (fl v) else fl v)))"

section \<open>JavaScript values\<close>

text \<open>
  The values the helpers receive are those a parsed CSV or JSON file can hold, and
  \<open>undefined\<close> for what is absent. An object is the list of its own properties in
  insertion order.
\<close>

datatype jsval =
    JUndefined
  | JNull
  | JBool bool
  | JNum jsnum
  | JStr string
  | JArr "jsval list"
  | JObj "(string \<times> jsval) list"

datatype js_error = TypeError | Error string

definition num :: "rat \<Rightarrow> jsval" where
  "num x = JNum (Fin x)"

fun ToBoolean :: "jsval \<Rightarrow> bool" where
  "ToBoolean JUndefined = False"
| "ToBoolean JNull = False"
| "ToBoolean (JBool b) = b"
| "ToBoolean (JNum n) = (n \<noteq> NaN \<and> n \<noteq> Fin 0)"
| "ToBoolean (JStr s) = (s \<noteq> [])"
| "ToBoolean (JArr xs) = True"
| "ToBoolean (JObj kvs) = True"

text \<open>\<open>a || b\<close> on values.\<close>

definition js_or :: "jsval \<Rightarrow> jsval \<Rightarrow> jsval" where
  "js_or a b = (if ToBoolean a then a else b)"

text \<open>
  \<open>Array.prototype.join(",")\<close> over already converted elements; the first element
  that fails to convert makes the whole conversion fail.
\<close>

fun join_comma :: "(js_error + string) list \<Rightarrow> js_error + string" where
  "join_comma [] = Inr []"
| "join_comma [r] = r"
| "join_comma (r # rs) =
     (case r of
        Inl e \<Rightarrow> Inl e
      | Inr s \<Rightarrow> (case join_comma rs of Inl e \<Rightarrow> Inl e | Inr t \<Rightarrow> Inr (s @ '','' @ t)))"

text \<open>
  \<open>ToString\<close>. An array prints its elements separated by commas, \<open>null\<close> and
  \<open>undefined\<close> elements as nothing. A plain object prints as \<open>[object Object]\<close>
  through the inherited \<open>toString\<close>; when it has an own property \<open>toString\<close>, which
  in parsed data is never a function, no conversion method yields a primitive and the
  conversion throws a TypeError.
\<close>

fun ToString :: "jsval \<Rightarrow> js_error + string" where
  "ToString JUndefined = Inr ''undefined''"
| "ToString JNull = Inr ''null''"
| "ToString (JBool b) = Inr (if b then ''true'' else ''false'')"
| "ToString (JNum n) = Inr (Number_toString n)"
| "ToString (JStr s) = Inr s"
| "ToString (JArr xs) =
     join_comma (map (\<lambda>x. case x of JUndefined \<Rightarrow> Inr [] | JNull \<Rightarrow> Inr [] | _ \<Rightarrow> ToString x) xs)"
| "ToString (JObj kvs) =
     (if ''toString'' \<in> set (map fst kvs) then Inl TypeError else Inr ''[object Object]'')"

fun ToNumber :: "jsval \<Rightarrow> js_error + jsnum" where
  "ToNumber JUndefined = Inr NaN"
| "ToNumber JNull = Inr (Fin 0)"
| "ToNumber (JBool b) = Inr (Fin (if b then 1 else 0))"
| "ToNumber (JNum n) = Inr n"
| "ToNumber (JStr s) = Inr (StringToNumber s)"
| "ToNumber v = (case ToString v of Inl e \<Rightarrow> Inl e | Inr s \<Rightarrow> Inr (StringToNumber s))"

text \<open>\<open>v < c\<close> and \<open>v > c\<close> for a value \<open>v\<close> and a numeric constant \<open>c\<close>.\<close>

definition js_less :: "jsval \<Rightarrow> rat \<Rightarrow> js_error + bool" where
  "js_less v c = (case ToNumber v of Inl e \<Rightarrow> Inl e | Inr n \<Rightarrow> Inr (js_lt n (Fin c)))"

definition js_greater :: "jsval \<Rightarrow> rat \<Rightarrow> js_error + bool" where
  "js_greater v c = (case ToNumber v of Inl e \<Rightarrow> Inl e | Inr n \<Rightarrow> Inr (js_lt (Fin c) n))"

text \<open>
  \<open>a === b\<close>. Primitives are compared by value (\<open>NaN\<close> differs from itself). Objects
  and arrays are compared by identity; two values met by the modelled code come from
  different parsed documents, so they are never the same object.
\<close>

fun strict_equal :: "jsval \<Rightarrow> jsval \<Rightarrow> bool" where
  "strict_equal JUndefined JUndefined = True"
| "strict_equal JNull JNull = True"
| "strict_equal (JBool a) (JBool b) = (a = b)"
| "strict_equal (JNum a) (JNum b) = (a \<noteq> NaN \<and> a = b)"
| "strict_equal (JStr a) (JStr b) = (a = b)"
| "strict_equal _ _ = False"

text \<open>
  Properties. The own properties of an array are its indices and \<open>length\<close>, those of a
  string its character indices and \<open>length\<close>. Inherited properties are not listed: the
  property names the modelled code reads are not defined on the built-in prototypes,
  and the inherited methods it calls are modelled at their call.
\<close>

definition indexed :: "jsval list \<Rightarrow> (string \<times> jsval) list" where
  "indexed xs =
     zip (map (\<lambda>i. digits_of (int i)) [0..<length xs]) xs @ [(''length'', num (of_nat (length xs)))]"

fun properties :: "jsval \<Rightarrow> (string \<times> jsval) list" where
  "properties (JObj kvs) = kvs"
| "properties (JArr xs) = indexed xs"
| "properties (JStr s) = indexed (map (\<lambda>c. JStr [c]) s)"
| "properties _ = []"

fun is_object :: "jsval \<Rightarrow> bool" where
  "is_object (JObj kvs) = True"
| "is_object (JArr xs) = True"
| "is_object _ = False"

text \<open>\<open>k in v\<close> throws a TypeError when \<open>v\<close> is not an object.\<close>

definition has_property :: "string \<Rightarrow> jsval \<Rightarrow> js_error + bool" where
  "has_property k v =
     (if is_object v then Inr (map_of (properties v) k \<noteq> None) else Inl TypeError)"

text \<open>\<open>v[k]\<close> and \<open>v.k\<close> throw a TypeError when \<open>v\<close> is \<open>null\<close> or \<open>undefined\<close>.\<close>

definition property :: "jsval \<Rightarrow> string \<Rightarrow> jsval" where
  "property v k = (case map_of (properties v) k of None \<Rightarrow> JUndefined | Some x \<Rightarrow> x)"

definition get :: "jsval \<Rightarrow> string \<Rightarrow> js_error + jsval" where
  "get v k = (if v = JUndefined \<or> v = JNull then Inl TypeError else Inr (property v k))"

text \<open>
  A value is \<open>plain\<close> when converting it to a string or a number cannot throw: it is
  not an object with an own property \<open>toString\<close>, nor an array holding one.
\<close>

fun plain :: "jsval \<Rightarrow> bool" where
  "plain (JObj kvs) = (''toString'' \<notin> set (map fst kvs))"
| "plain (JArr xs) = list_all plain xs"
| "plain _ = True"

section \<open>\<^verbatim>\<open>src/utils/helpers.js\<close>\<close>

subsection \<open>\<^verbatim>\<open>parseJSON\<close>\<close>

text \<open>
  \<^verbatim>\<open>parseJSON(file)\<close> returns a promise settled from the callbacks of a
  \<^verbatim>\<open>FileReader\<close>. What the reader and \<^verbatim>\<open>JSON.parse\<close> make of the file is the
  input of the model: the read fails (\<^verbatim>\<open>onerror\<close>), or it delivers a text that
  \<^verbatim>\<open>JSON.parse\<close> rejects with a SyntaxError, or a text that it decodes to a value.
  A rejected promise is \<open>Inl\<close>, a resolved one \<open>Inr\<close>.
\<close>

datatype json_file = Unreadable | Malformed | Decoded jsval

fun Array_isArray :: "jsval \<Rightarrow> bool" where
  "Array_isArray (JArr xs) = True"
| "Array_isArray _ = False"

fun parseJSON :: "json_file \<Rightarrow> js_error + jsval" where
  "parseJSON Unreadable = Inl (Error ''Failed to read file'')"
| "parseJSON Malformed = Inl (Error ''Invalid JSON format'')"
| "parseJSON (Decoded data) = Inr (if Array_isArray data then data else JArr [data])"

subsection \<open>\<^verbatim>\<open>validateDeliveryData\<close>\<close>

record 'e validation =
  isValid :: bool
  errors :: 'e

definition requiredFields :: "string list" where
  "requiredFields = [''id'', ''customer_name'', ''lat'', ''lng'', ''address'']"

text \<open>The text of \<^verbatim>\<open>`Row ${index + 1}`\<close>.\<close>

definition row_label :: "nat \<Rightarrow> string" where
  "row_label index = ''Row '' @ Number_toString (Fin (of_nat (index + 1)))"

definition missing_message :: "nat \<Rightarrow> string \<Rightarrow> string" where
  "missing_message index field =
     row_label index @ '': Missing or empty field '' @ [CHR 0x27] @ field @ [CHR 0x27]"

definition latitude_message :: "nat \<Rightarrow> string \<Rightarrow> string" where
  "latitude_message index v = row_label index @ '': Invalid latitude value ('' @ v @ '')''"

definition longitude_message :: "nat \<Rightarrow> string \<Rightarrow> string" where
  "longitude_message index v = row_label index @ '': Invalid longitude value ('' @ v @ '')''"

text \<open>
  The condition of the inner loop:
  \<^verbatim>\<open>!(field in item) || item[field] === null || item[field] === undefined || item[field] === ''\<close>.
\<close>

definition field_missing :: "jsval \<Rightarrow> string \<Rightarrow> js_error + bool" where
  "field_missing item field =
     (case has_property field item of
        Inl e \<Rightarrow> Inl e
      | Inr present \<Rightarrow>
          if \<not> present then Inr True
          else (case get item field of
                  Inl e \<Rightarrow> Inl e
                | Inr v \<Rightarrow> Inr (strict_equal v JNull \<or> strict_equal v JUndefined
                                \<or> strict_equal v (JStr []))))"

text \<open>\<^verbatim>\<open>requiredFields.forEach(field => ...)\<close>, pushing onto \<open>errs\<close>.\<close>

fun check_fields :: "jsval \<Rightarrow> nat \<Rightarrow> string list \<Rightarrow> string list \<Rightarrow> js_error + string list" where
  "check_fields item index [] errs = Inr errs"
| "check_fields item index (field # rest) errs =
     (case field_missing item field of
        Inl e \<Rightarrow> Inl e
      | Inr missing \<Rightarrow>
          check_fields item index rest
            (if missing then errs @ [missing_message index field] else errs))"

text \<open>The condition \<^verbatim>\<open>v && (v < lo || v > hi)\<close> of the two coordinate checks.\<close>

definition out_of_range :: "jsval \<Rightarrow> rat \<Rightarrow> rat \<Rightarrow> js_error + bool" where
  "out_of_range v lo hi =
     (if \<not> ToBoolean v then Inr False
      else (case js_less v lo of
              Inl e \<Rightarrow> Inl e
            | Inr True \<Rightarrow> Inr True
            | Inr False \<Rightarrow> js_greater v hi))"

text \<open>
  One coordinate check: when the value is out of range, the message built from the
  value's text is pushed.
\<close>

definition check_coordinate ::
  "jsval \<Rightarrow> string \<Rightarrow> rat \<Rightarrow> rat \<Rightarrow> (string \<Rightarrow> string) \<Rightarrow> string list \<Rightarrow> js_error + string list" where
  "check_coordinate item field lo hi message errs =
     (case get item field of
        Inl e \<Rightarrow> Inl e
      | Inr v \<Rightarrow>
          (case out_of_range v lo hi of
             Inl e \<Rightarrow> Inl e
           | Inr False \<Rightarrow> Inr errs
           | Inr True \<Rightarrow>
               (case ToString v of Inl e \<Rightarrow> Inl e | Inr t \<Rightarrow> Inr (errs @ [message t]))))"

text \<open>The body of \<^verbatim>\<open>data.forEach((item, index) => ...)\<close>.\<close>

definition check_item :: "jsval \<Rightarrow> nat \<Rightarrow> string list \<Rightarrow> js_error + string list" where
  "check_item item index errs =
     (case check_fields item index requiredFields errs of
        Inl e \<Rightarrow> Inl e
      | Inr errs1 \<Rightarrow>
          (case check_coordinate item ''lat'' (- 90) 90 (latitude_message index) errs1 of
             Inl e \<Rightarrow> Inl e
           | Inr errs2 \<Rightarrow>
               check_coordinate item ''lng'' (- 180) 180 (longitude_message index) errs2))"

fun forEach_item :: "jsval list \<Rightarrow> nat \<Rightarrow> string list \<Rightarrow> js_error + string list" where
  "forEach_item [] index errs = Inr errs"
| "forEach_item (item # items) index errs =
     (case check_item item index errs of
        Inl e \<Rightarrow> Inl e
      | Inr errs' \<Rightarrow> forEach_item items (Suc index) errs')"

text \<open>The array \<^verbatim>\<open>errors\<close> as it stands after the loop, before it is cut.\<close>

definition collected_errors :: "jsval list \<Rightarrow> js_error + string list" where
  "collected_errors items = forEach_item items 0 []"

definition validateDeliveryData :: "jsval \<Rightarrow> js_error + string list validation" where
  "validateDeliveryData data =
     (case data of
        JArr items \<Rightarrow>
          if items = [] then Inr \<lparr>isValid = False, errors = [''Data must be a non-empty array'']\<rparr>
          else (case collected_errors items of
                  Inl e \<Rightarrow> Inl e
                | Inr errs \<Rightarrow> Inr \<lparr>isValid = (length errs = 0), errors = take 10 errs\<rparr>)
      | _ \<Rightarrow> Inr \<lparr>isValid = False, errors = [''Data must be a non-empty array'']\<rparr>)"

text \<open>
  A delivery record is an object whose \<open>lat\<close> and \<open>lng\<close> are plain values. The
  messages one record contributes are those its run of the loop body pushes.
\<close>

definition delivery_record :: "jsval \<Rightarrow> bool" where
  "delivery_record item =
     (is_object item \<and> plain (property item ''lat'') \<and> plain (property item ''lng''))"

definition record_errors :: "nat \<Rightarrow> jsval \<Rightarrow> string list" where
  "record_errors index item = (case check_item item index [] of Inl e \<Rightarrow> [] | Inr errs \<Rightarrow> errs)"

subsection \<open>\<^verbatim>\<open>formatDistance\<close>, \<^verbatim>\<open>formatTime\<close>, \<^verbatim>\<open>getRouteColor\<close>\<close>

definition formatDistance :: "jsnum \<Rightarrow> string" where
  "formatDistance distance =
     (if js_lt distance (Fin 1) then Number_toFixed (js_mul distance (Fin 1000)) 0 @ '' m''
      else Number_toFixed distance 2 @ '' km'')"

definition formatTime :: "jsnum \<Rightarrow> string" where
  "formatTime minutes =
     (let hours = Math_floor (js_div minutes (Fin 60));
          mins = Math_round (js_rem minutes (Fin 60))
      in if hours = Fin 0 then Number_toString mins @ '' min''
         else Number_toString hours @ ''h '' @ Number_toString mins @ ''m'')"

definition colors :: "string list" where
  "colors = [''#3B82F6'', ''#EF4444'', ''#10B981'', ''#F59E0B'',
             ''#8B5CF6'', ''#EC4899'', ''#14B8A6'', ''#F97316'']"

text \<open>
  \<^verbatim>\<open>xs[n]\<close> for a Number \<open>n\<close>: the element when \<open>n\<close> is an integer index of the
  array, \<open>undefined\<close> otherwise.
\<close>

definition element_at :: "string list \<Rightarrow> jsnum \<Rightarrow> jsval" where
  "element_at xs n =
     (case n of
        Fin r \<Rightarrow> if of_int \<lfloor>r\<rfloor> = r \<and> 0 \<le> r \<and> r < of_nat (length xs)
                 then JStr (xs ! nat \<lfloor>r\<rfloor>) else JUndefined
      | _ \<Rightarrow> JUndefined)"

definition getRouteColor :: "jsnum \<Rightarrow> jsval" where
  "getRouteColor index = element_at colors (js_rem index (Fin (of_nat (length colors))))"

subsection \<open>\<^verbatim>\<open>validateConstraints\<close>\<close>

text \<open>The condition \<^verbatim>\<open>!v || v < 1\<close>.\<close>

definition below_one :: "jsval \<Rightarrow> js_error + bool" where
  "below_one v = (if \<not> ToBoolean v then Inr True else js_less v 1)"

text \<open>
  \<^verbatim>\<open>v.trim()\<close>: only a string has the method; on any other value the call throws a
  TypeError.
\<close>

fun String_trim :: "jsval \<Rightarrow> js_error + string" where
  "String_trim (JStr s) = Inr (js_trim s)"
| "String_trim _ = Inl TypeError"

text \<open>The condition \<^verbatim>\<open>!v || v.trim() === ''\<close>.\<close>

definition blank :: "jsval \<Rightarrow> js_error + bool" where
  "blank v =
     (if \<not> ToBoolean v then Inr True
      else (case String_trim v of Inl e \<Rightarrow> Inl e | Inr t \<Rightarrow> Inr (t = [])))"

text \<open>One \<^verbatim>\<open>if (cond) errors[key] = message\<close> step on the object \<^verbatim>\<open>errors\<close>.\<close>

definition set_error ::
  "js_error + bool \<Rightarrow> string \<Rightarrow> string \<Rightarrow> (string \<times> string) list
     \<Rightarrow> js_error + (string \<times> string) list" where
  "set_error cond key message errs =
     (case cond of
        Inl e \<Rightarrow> Inl e
      | Inr True \<Rightarrow> Inr (errs @ [(key, message)])
      | Inr False \<Rightarrow> Inr errs)"

definition validateConstraints :: "jsval \<Rightarrow> js_error + (string \<times> string) list validation" where
  "validateConstraints constraints =
     (case get constraints ''maxStopsPerRoute'' of
        Inl e \<Rightarrow> Inl e
      | Inr maxStops \<Rightarrow>
     (case set_error (below_one maxStops) ''maxStopsPerRoute'' ''Must be at least 1'' [] of
        Inl e \<Rightarrow> Inl e
      | Inr errors1 \<Rightarrow>
     (case get constraints ''vehicleCapacity'' of
        Inl e \<Rightarrow> Inl e
      | Inr capacity \<Rightarrow>
     (case set_error (below_one capacity) ''vehicleCapacity'' ''Must be at least 1'' errors1 of
        Inl e \<Rightarrow> Inl e
      | Inr errors2 \<Rightarrow>
     (case get constraints ''startLocation'' of
        Inl e \<Rightarrow> Inl e
      | Inr location \<Rightarrow>
     (case set_error (blank location) ''startLocation'' ''Start location is required'' errors2 of
        Inl e \<Rightarrow> Inl e
      | Inr errors3 \<Rightarrow>
          Inr \<lparr>isValid = (length (map fst errors3) = 0), errors = errors3\<rparr>))))))"

section \<open>\<^verbatim>\<open>src/components/ExportButton.jsx\<close>: \<^verbatim>\<open>handleExportCSV\<close>\<close>

text \<open>\<^verbatim>\<open>delivery_points.find(p => p.id === stop.id)\<close>.\<close>

fun find_point :: "jsval list \<Rightarrow> jsval \<Rightarrow> js_error + jsval" where
  "find_point [] stop = Inr JUndefined"
| "find_point (p # ps) stop =
     (case get p ''id'' of
        Inl e \<Rightarrow> Inl e
      | Inr pid \<Rightarrow>
          (case get stop ''id'' of
             Inl e \<Rightarrow> Inl e
           | Inr sid \<Rightarrow> if strict_equal pid sid then Inr p else find_point ps stop))"

text \<open>
  \<^verbatim>\<open>routeData.delivery_points?.find(...) || {}\<close>: a missing list of points gives
  the empty object; a value without the method \<^verbatim>\<open>find\<close> makes the call throw.
\<close>

definition lookup_point :: "jsval \<Rightarrow> jsval \<Rightarrow> js_error + jsval" where
  "lookup_point routeData stop =
     (case get routeData ''delivery_points'' of
        Inl e \<Rightarrow> Inl e
      | Inr points \<Rightarrow>
          (case points of
             JUndefined \<Rightarrow> Inr (JObj [])
           | JNull \<Rightarrow> Inr (JObj [])
           | JArr ps \<Rightarrow>
               (case find_point ps stop of Inl e \<Rightarrow> Inl e | Inr p \<Rightarrow> Inr (js_or p (JObj [])))
           | _ \<Rightarrow> Inl TypeError))"

text \<open>\<^verbatim>\<open>v.k || ''\<close>.\<close>

definition or_empty :: "jsval \<Rightarrow> string \<Rightarrow> js_error + jsval" where
  "or_empty v k = (case get v k of Inl e \<Rightarrow> Inl e | Inr x \<Rightarrow> Inr (js_or x (JStr [])))"

text \<open>The object pushed for one stop of one route.\<close>

definition export_row :: "jsval \<Rightarrow> jsval \<Rightarrow> nat \<Rightarrow> jsval \<Rightarrow> nat \<Rightarrow> js_error + jsval" where
  "export_row routeData route routeIndex stop stopIndex =
     (case lookup_point routeData stop of Inl e \<Rightarrow> Inl e | Inr point \<Rightarrow>
     (case get stop ''id'' of Inl e \<Rightarrow> Inl e | Inr customer_id \<Rightarrow>
     (case or_empty point ''customer_name'' of Inl e \<Rightarrow> Inl e | Inr customer_name \<Rightarrow>
     (case or_empty point ''address'' of Inl e \<Rightarrow> Inl e | Inr address \<Rightarrow>
     (case or_empty point ''lat'' of Inl e \<Rightarrow> Inl e | Inr latitude \<Rightarrow>
     (case or_empty point ''lng'' of Inl e \<Rightarrow> Inl e | Inr longitude \<Rightarrow>
     (case or_empty point ''delivery_window'' of Inl e \<Rightarrow> Inl e | Inr delivery_window \<Rightarrow>
     (case or_empty stop ''distance'' of Inl e \<Rightarrow> Inl e | Inr distance \<Rightarrow>
     (case or_empty route ''total_distance'' of Inl e \<Rightarrow> Inl e | Inr total_distance \<Rightarrow>
     (case or_empty route ''estimated_time'' of Inl e \<Rightarrow> Inl e | Inr estimated_time \<Rightarrow>
        Inr (JObj [(''route_id'', num (of_nat (routeIndex + 1))),
                   (''stop_sequence'', num (of_nat (stopIndex + 1))),
                   (''customer_id'', customer_id),
                   (''customer_name'', customer_name),
                   (''address'', address),
                   (''latitude'', latitude),
                   (''longitude'', longitude),
                   (''delivery_window'', delivery_window),
                   (''distance_from_previous'', distance),
                   (''route_total_distance'', total_distance),
                   (''route_estimated_time'', estimated_time)])))))))))))"

text \<open>\<^verbatim>\<open>route.stops.forEach((stop, stopIndex) => ...)\<close>, pushing onto \<open>rows\<close>.\<close>

fun forEach_stop ::
  "jsval \<Rightarrow> jsval \<Rightarrow> nat \<Rightarrow> jsval list \<Rightarrow> nat \<Rightarrow> jsval list \<Rightarrow> js_error + jsval list" where
  "forEach_stop routeData route routeIndex [] stopIndex rows = Inr rows"
| "forEach_stop routeData route routeIndex (stop # stops) stopIndex rows =
     (case export_row routeData route routeIndex stop stopIndex of
        Inl e \<Rightarrow> Inl e
      | Inr row \<Rightarrow> forEach_stop routeData route routeIndex stops (Suc stopIndex) (rows @ [row]))"

text \<open>
  \<^verbatim>\<open>routes.forEach((route, routeIndex) => ...)\<close>; \<^verbatim>\<open>route.stops\<close> has to be an
  array for \<^verbatim>\<open>forEach\<close> to be callable on it.
\<close>

fun forEach_route :: "jsval \<Rightarrow> jsval list \<Rightarrow> nat \<Rightarrow> jsval list \<Rightarrow> js_error + jsval list" where
  "forEach_route routeData [] routeIndex rows = Inr rows"
| "forEach_route routeData (route # routes) routeIndex rows =
     (case get route ''stops'' of
        Inl e \<Rightarrow> Inl e
      | Inr (JArr stops) \<Rightarrow>
          (case forEach_stop routeData route routeIndex stops 0 rows of
             Inl e \<Rightarrow> Inl e
           | Inr rows' \<Rightarrow> forEach_route routeData routes (Suc routeIndex) rows')
      | Inr _ \<Rightarrow> Inl TypeError)"

text \<open>
  The array \<^verbatim>\<open>flattenedData\<close> after \<^verbatim>\<open>routeData.routes?.forEach(...)\<close>: missing
  routes leave it empty.
\<close>

definition flattenedData :: "jsval \<Rightarrow> js_error + jsval list" where
  "flattenedData routeData =
     (case get routeData ''routes'' of
        Inl e \<Rightarrow> Inl e
      | Inr routes \<Rightarrow>
          (case routes of
             JUndefined \<Rightarrow> Inr []
           | JNull \<Rightarrow> Inr []
           | JArr rs \<Rightarrow> forEach_route routeData rs 0 []
           | _ \<Rightarrow> Inl TypeError))"

text \<open>
  The handler passes the rows to \<^verbatim>\<open>exportToCSV\<close>; an exception on the way is caught
  and reported by an alert.
\<close>

datatype export_outcome = Exported "jsval list" | Alerted string

definition handleExportCSV :: "jsval \<Rightarrow> export_outcome" where
  "handleExportCSV routeData =
     (case flattenedData routeData of
        Inl e \<Rightarrow> Alerted ''Failed to export data. Please try again.''
      | Inr rows \<Rightarrow> Exported rows)"

text \<open>
  The rows written out as a function of the bundle, to compare with the loop: the point
  of a stop is the first delivery point whose \<open>id\<close> is strictly equal to the stop's,
  the empty object when there is none; every looked-up field that is falsy is replaced
  by the empty string.
\<close>

definition resolve_point :: "jsval list \<Rightarrow> jsval \<Rightarrow> jsval" where
  "resolve_point points stop =
     (case List.find (\<lambda>p. strict_equal (property p ''id'') (property stop ''id'')) points of
        None \<Rightarrow> JObj []
      | Some p \<Rightarrow> js_or p (JObj []))"

definition flat_row :: "jsval list \<Rightarrow> jsval \<Rightarrow> nat \<Rightarrow> jsval \<Rightarrow> nat \<Rightarrow> jsval" where
  "flat_row points route routeIndex stop stopIndex =
     JObj [(''route_id'', num (of_nat (routeIndex + 1))),
           (''stop_sequence'', num (of_nat (stopIndex + 1))),
           (''customer_id'', property stop ''id''),
           (''customer_name'', js_or (property (resolve_point points stop) ''customer_name'') (JStr [])),
           (''address'', js_or (property (resolve_point points stop) ''address'') (JStr [])),
           (''latitude'', js_or (property (resolve_point points stop) ''lat'') (JStr [])),
           (''longitude'', js_or (property (resolve_point points stop) ''lng'') (JStr [])),
           (''delivery_window'',
              js_or (property (resolve_point points stop) ''delivery_window'') (JStr [])),
           (''distance_from_previous'', js_or (property stop ''distance'') (JStr [])),
           (''route_total_distance'', js_or (property route ''total_distance'') (JStr [])),
           (''route_estimated_time'', js_or (property route ''estimated_time'') (JStr []))]"

definition stops_of :: "jsval \<Rightarrow> jsval list" where
  "stops_of route = (case property route ''stops'' of JArr stops \<Rightarrow> stops | _ \<Rightarrow> [])"

definition route_rows :: "jsval list \<Rightarrow> nat \<Rightarrow> jsval \<Rightarrow> jsval list" where
  "route_rows points routeIndex route =
     map2 (\<lambda>stopIndex stop. flat_row points route routeIndex stop stopIndex)
       [0..<length (stops_of route)] (stops_of route)"

definition flat_rows :: "jsval list \<Rightarrow> jsval list \<Rightarrow> jsval list" where
  "flat_rows points routes = concat (map2 (route_rows points) [0..<length routes] routes)"

definition non_null :: "jsval \<Rightarrow> bool" where
  "non_null v = (v \<noteq> JUndefined \<and> v \<noteq> JNull)"

text \<open>A route of the bundle: it holds an array of stops, none of them null.\<close>

definition well_formed_route :: "jsval \<Rightarrow> bool" where
  "well_formed_route route =
     (non_null route \<and> Array_isArray (property route ''stops'')
      \<and> list_all non_null (stops_of route))"

section \<open>\<^verbatim>\<open>calculateDistance\<close> over the reals\<close>

text \<open>
  \<^verbatim>\<open>Math.sin\<close>, \<^verbatim>\<open>Math.cos\<close> and \<^verbatim>\<open>Math.atan2\<close> are implementation-approximated
  in ECMA-262, so their results on doubles are not determined by the language. The
  haversine formula of \<^verbatim>\<open>calculateDistance\<close> is therefore modelled over the real
  numbers: the arithmetic is exact and \<open>atan2\<close> is the two-argument arctangent.
\<close>

definition toRad :: "real \<Rightarrow> real" where
  "toRad degrees = degrees * (pi / 180)"

definition atan2 :: "real \<Rightarrow> real \<Rightarrow> real" where
  "atan2 y x =
     (if 0 < x then arctan (y / x)
      else if x < 0 then (if 0 \<le> y then arctan (y / x) + pi else arctan (y / x) - pi)
      else if 0 < y then pi / 2
      else if y < 0 then - (pi / 2)
      else 0)"

definition calculateDistance :: "real \<Rightarrow> real \<Rightarrow> real \<Rightarrow> real \<Rightarrow> real" where
  "calculateDistance lat1 lon1 lat2 lon2 =
     (let R = 6371;
          dLat = toRad (lat2 - lat1);
          dLon = toRad (lon2 - lon1);
          a = sin (dLat / 2) * sin (dLat / 2)
              + cos (toRad lat1) * cos (toRad lat2) * sin (dLon / 2) * sin (dLon / 2);
          c = 2 * atan2 (sqrt a) (sqrt (1 - a))
      in R * c)"

section \<open>Properties\<close>

subsection \<open>Route colours\<close>

lemma js_rem_of_nat:
  assumes "0 < n"
  shows "js_rem (Fin (of_nat i)) (Fin (of_nat n)) = Fin (of_nat (i mod n))"
proof -
  have nz: "(of_nat n :: rat) \<noteq> 0" using assms by simp
  have "(of_nat i :: rat) / of_nat n \<ge> 0" by simp
  then have t: "trunc (of_nat i / of_nat n) = int (i div n)"
    unfolding trunc_def by (simp add: floor_divide_of_nat_eq)
  have e: "(of_nat i :: rat) = of_nat n * of_nat (i div n) + of_nat (i mod n)"
    by (metis mult_div_mod_eq of_nat_add of_nat_mult)
  have "(of_nat n * of_nat (i div n) + of_nat (i mod n)) - of_nat n * of_int (int (i div n))
          = (of_nat (i mod n) :: rat)"
    by simp
  then have "(of_nat i :: rat) - of_nat n * of_int (int (i div n)) = of_nat (i mod n)"
    by (simp only: e)
  then show ?thesis using nz t by simp
qed

lemma element_at_of_nat: "k < length xs \<Longrightarrow> element_at xs (Fin (of_nat k)) = JStr (xs ! k)"
  by (simp add: element_at_def)

lemma length_colors: "length colors = 8"
  by (simp add: colors_def)

lemma getRouteColor_of_nat: "getRouteColor (Fin (of_nat i)) = JStr (colors ! (i mod 8))"
proof -
  have "js_rem (Fin (of_nat i)) (Fin (of_nat (length colors))) = Fin (of_nat (i mod 8))"
    using js_rem_of_nat [of 8 i] by (simp add: length_colors)
  moreover have "i mod 8 < length colors" by (simp add: length_colors)
  ultimately show ?thesis
    by (simp add: getRouteColor_def element_at_of_nat)
qed

text \<open>
  Claim C7. \<^verbatim>\<open>getRouteColor\<close> picks from a fixed palette of 8 pairwise different
  colours by the route index modulo 8: for every route index \<open>i\<close> (a natural number)
  the colours of \<open>i\<close> and \<open>i + 8\<close> agree, the colours of 0 and 1 differ, and the
  result is a function of the index alone.
\<close>

theorem getRouteColor_cycle:
  "getRouteColor (Fin (of_nat (i + 8))) = getRouteColor (Fin (of_nat i))
   \<and> getRouteColor (Fin (of_nat i)) = JStr (colors ! (i mod 8))
   \<and> length colors = 8 \<and> distinct colors
   \<and> getRouteColor (Fin 0) \<noteq> getRouteColor (Fin 1)"
proof -
  have a: "getRouteColor (Fin (of_nat (i + 8))) = getRouteColor (Fin (of_nat i))"
    unfolding getRouteColor_of_nat by simp
  have d: "distinct colors" by (simp add: colors_def)
  have "getRouteColor (Fin (of_nat 0)) \<noteq> getRouteColor (Fin (of_nat 1))"
    unfolding getRouteColor_of_nat by (simp add: colors_def)
  then have n: "getRouteColor (Fin 0) \<noteq> getRouteColor (Fin 1)" by simp
  show ?thesis using a d n length_colors getRouteColor_of_nat by blast
qed

subsection \<open>Parsing a JSON file\<close>

text \<open>
  A payload that decodes to a bare number is not rejected: it is wrapped like any
  other value that is not an array.
\<close>

theorem parseJSON_number_counterexample:
  "parseJSON (Decoded (JNum (Fin 42))) = Inr (JArr [JNum (Fin 42)])"
  by simp

text \<open>
  Claim C3, amended. \<^verbatim>\<open>parseJSON\<close> succeeds exactly on the payloads that
  \<^verbatim>\<open>JSON.parse\<close> decodes, and then always with an array: a decoded array is returned
  as it is, and every other decoded value (an object, but also a bare number, string,
  boolean or \<open>null\<close>) is wrapped in a one-element array. Only invalid JSON syntax, or a
  file that cannot be read, is rejected with an error.
\<close>

theorem parseJSON_outcome:
  "(\<exists>v. parseJSON f = Inr v \<and> Array_isArray v) = (\<exists>d. f = Decoded d)
   \<and> parseJSON (Decoded d) = Inr (if Array_isArray d then d else JArr [d])
   \<and> parseJSON Malformed = Inl (Error ''Invalid JSON format'')
   \<and> parseJSON Unreadable = Inl (Error ''Failed to read file'')"
  by (cases f) auto


subsection \<open>Validation never throws on delivery records\<close>

lemma join_comma_Inr:
  "(\<And>r. r \<in> set rs \<Longrightarrow> \<exists>s. r = Inr s) \<Longrightarrow> \<exists>t. join_comma rs = Inr t"
proof (induction rs)
  case Nil
  then show ?case by simp
next
  case (Cons r rs)
  from Cons.prems obtain s where s: "r = Inr s" by force
  from Cons obtain t where t: "join_comma rs = Inr t" by force
  show ?case using s t by (cases rs) simp_all
qed

lemma ToString_plain: "plain v \<Longrightarrow> \<exists>s. ToString v = Inr s"
proof (induction v)
  case (JArr xs)
  have "\<And>r. r \<in> set (map (\<lambda>x. case x of JUndefined \<Rightarrow> Inr [] | JNull \<Rightarrow> Inr [] | _ \<Rightarrow> ToString x) xs)
          \<Longrightarrow> \<exists>s. r = Inr s"
  proof -
    fix r
    assume "r \<in> set (map (\<lambda>x. case x of JUndefined \<Rightarrow> Inr [] | JNull \<Rightarrow> Inr [] | _ \<Rightarrow> ToString x) xs)"
    then obtain x where x: "x \<in> set xs"
      and r: "r = (case x of JUndefined \<Rightarrow> Inr [] | JNull \<Rightarrow> Inr [] | _ \<Rightarrow> ToString x)" by auto
    from JArr.prems x have "plain x" by (simp add: list_all_iff)
    with JArr.IH x obtain s where "ToString x = Inr s" by blast
    with r show "\<exists>s. r = Inr s" by (cases x) auto
  qed
  then show ?case unfolding ToString.simps by (rule join_comma_Inr)
qed auto

lemma ToNumber_plain: "plain v \<Longrightarrow> \<exists>n. ToNumber v = Inr n"
proof (cases v)
  case (JArr xs)
  assume "plain v"
  then obtain s where "ToString v = Inr s" using ToString_plain by blast
  with JArr show ?thesis by simp
next
  case (JObj kvs)
  assume "plain v"
  then obtain s where "ToString v = Inr s" using ToString_plain by blast
  with JObj show ?thesis by simp
qed auto

lemma out_of_range_plain: "plain v \<Longrightarrow> \<exists>b. out_of_range v lo hi = Inr b"
proof -
  assume "plain v"
  then obtain n where "ToNumber v = Inr n" using ToNumber_plain by blast
  then show ?thesis
    by (auto simp: out_of_range_def js_less_def js_greater_def split: bool.splits)
qed

lemma get_object: "is_object item \<Longrightarrow> get item k = Inr (property item k)"
  by (cases item) (simp_all add: get_def)

lemma field_missing_object: "is_object item \<Longrightarrow> \<exists>b. field_missing item f = Inr b"
  by (auto simp: field_missing_def has_property_def get_object)

lemma check_fields_append:
  "is_object item \<Longrightarrow> \<exists>new. \<forall>errs. check_fields item i fs errs = Inr (errs @ new)"
proof (induction fs)
  case Nil
  then show ?case by simp
next
  case (Cons f fs)
  then obtain new where new: "\<And>errs. check_fields item i fs errs = Inr (errs @ new)" by blast
  from Cons.prems obtain b where b: "field_missing item f = Inr b"
    using field_missing_object by blast
  have "\<forall>errs. check_fields item i (f # fs) errs
          = Inr (errs @ ((if b then [missing_message i f] else []) @ new))"
    using b new by simp
  then show ?case by blast
qed

lemma check_coordinate_append:
  assumes "is_object item" and "plain (property item f)"
  shows "\<exists>new. \<forall>errs. check_coordinate item f lo hi msg errs = Inr (errs @ new)"
proof -
  obtain b where b: "out_of_range (property item f) lo hi = Inr b"
    using assms(2) out_of_range_plain by blast
  obtain t where t: "ToString (property item f) = Inr t"
    using assms(2) ToString_plain by blast
  have "\<forall>errs. check_coordinate item f lo hi msg errs
          = Inr (errs @ (if b then [msg t] else []))"
    using b t assms(1) by (simp add: check_coordinate_def get_object)
  then show ?thesis by blast
qed

lemma check_item_append:
  assumes "delivery_record item"
  shows "check_item item i errs = Inr (errs @ record_errors i item)"
proof -
  from assms have obj: "is_object item"
    and lat: "plain (property item ''lat'')" and lng: "plain (property item ''lng'')"
    by (simp_all add: delivery_record_def)
  obtain n1 where n1: "\<And>errs. check_fields item i requiredFields errs = Inr (errs @ n1)"
    using check_fields_append [OF obj] by blast
  obtain n2 where n2: "\<And>errs. check_coordinate item ''lat'' (- 90) 90 (latitude_message i) errs
                                 = Inr (errs @ n2)"
    using check_coordinate_append [OF obj lat] by blast
  obtain n3 where n3: "\<And>errs. check_coordinate item ''lng'' (- 180) 180 (longitude_message i) errs
                                 = Inr (errs @ n3)"
    using check_coordinate_append [OF obj lng] by blast
  have all: "\<And>errs. check_item item i errs = Inr (errs @ (n1 @ n2 @ n3))"
    by (simp add: check_item_def n1 n2 n3)
  then have "record_errors i item = n1 @ n2 @ n3"
    by (simp add: record_errors_def)
  then show ?thesis using all by simp
qed

lemma forEach_item_append:
  "list_all delivery_record items \<Longrightarrow>
     forEach_item items i errs
       = Inr (errs @ concat (map2 record_errors [i..<i + length items] items))"
proof (induction items arbitrary: i errs)
  case Nil
  then show ?case by simp
next
  case (Cons item items)
  then have rec: "delivery_record item" and rest: "list_all delivery_record items" by simp_all
  have up: "[i..<i + length (item # items)] = i # [Suc i..<Suc i + length items]"
    using upt_conv_Cons [of i "i + length (item # items)"] by simp
  show ?case
    unfolding up using check_item_append [OF rec] Cons.IH [OF rest] by simp
qed

subsection \<open>What validation reports\<close>

text \<open>
  For the empty array no record contributes an error, yet the data is reported invalid,
  with one message that is not a record's.
\<close>

theorem validateDeliveryData_empty_counterexample:
  "validateDeliveryData (JArr []) = Inr \<lparr>isValid = False, errors = [''Data must be a non-empty array'']\<rparr>
   \<and> collected_errors [] = Inr []"
  by (simp add: validateDeliveryData_def collected_errors_def)

text \<open>
  Claim C1, amended. For every non-empty array of delivery records, validation returns
  a result; the errors it has collected are the messages of the records, record after
  record in the order of the array; \<open>isValid\<close> is false exactly when that untruncated
  list is non-empty; and the reported list is its first \<open>min n 10\<close> entries, \<open>n\<close>
  being the number of collected errors.
\<close>

theorem validateDeliveryData_collects:
  assumes "items \<noteq> []" and "list_all delivery_record items"
  shows "\<exists>errs. errs = concat (map2 record_errors [0..<length items] items)
           \<and> collected_errors items = Inr errs
           \<and> validateDeliveryData (JArr items)
               = Inr \<lparr>isValid = (errs = []), errors = take (min (length errs) 10) errs\<rparr>"
proof -
  have c: "collected_errors items = Inr (concat (map2 record_errors [0..<length items] items))"
    using forEach_item_append [OF assms(2), of 0 "[]"] by (simp add: collected_errors_def)
  have t: "take (min (length errs) 10) errs = take 10 errs" for errs :: "string list"
    by (cases "length errs \<le> 10") (simp_all add: min_def)
  show ?thesis using c assms(1) by (simp add: validateDeliveryData_def t)
qed


text \<open>
  Three records without any field: fifteen errors are collected and the first ten are
  reported.
\<close>

lemma record_errors_empty_object:
  "record_errors i (JObj []) = map (missing_message i) requiredFields"
  by (simp add: record_errors_def check_item_def requiredFields_def field_missing_def
        has_property_def check_coordinate_def get_def property_def out_of_range_def)

theorem validateDeliveryData_collects_witness:
  "[JObj [], JObj [], JObj []] \<noteq> [] \<and> list_all delivery_record [JObj [], JObj [], JObj []]
   \<and> collected_errors [JObj [], JObj [], JObj []]
       = Inr (map (missing_message 0) requiredFields @ map (missing_message 1) requiredFields
              @ map (missing_message 2) requiredFields)
   \<and> validateDeliveryData (JArr [JObj [], JObj [], JObj []])
       = Inr \<lparr>isValid = False,
              errors = map (missing_message 0) requiredFields
                       @ map (missing_message 1) requiredFields\<rparr>"
proof -
  have h: "list_all delivery_record [JObj [], JObj [], JObj []]"
    by (simp add: delivery_record_def property_def)
  have u: "[0..<length [JObj [], JObj [], JObj []]] = [0, 1, 2]"
    by (simp add: upt_rec)
  have l: "length requiredFields = 5" and ne: "requiredFields \<noteq> []"
    by (simp_all add: requiredFields_def)
  have d: "delivery_record (JObj [])"
    by (simp add: delivery_record_def property_def)
  from validateDeliveryData_collects [OF _ h]
  show ?thesis
    unfolding u by (simp add: d ne record_errors_empty_object l)
qed


subsection \<open>Required fields and coordinates, record by record\<close>


























subsection \<open>Validation of the constraints form\<close>

lemma below_one_plain: "plain v \<Longrightarrow> \<exists>b. below_one v = Inr b"
proof -
  assume "plain v"
  then obtain n where "ToNumber v = Inr n" using ToNumber_plain by blast
  then show ?thesis by (auto simp: below_one_def js_less_def)
qed

lemma below_one_number: "below_one (num a) = Inr (a < 1)"
  by (auto simp: below_one_def js_less_def num_def)

lemma blank_string: "blank (JStr s) = Inr (js_trim s = [])"
  by (auto simp: blank_def js_trim_def)

text \<open>
  Claim C8. On a constraints object whose start location is a text,
  \<^verbatim>\<open>validateConstraints\<close> returns \<open>isValid = false\<close> with an error keyed to
  \<open>maxStopsPerRoute\<close> when that field is 0; it returns \<open>isValid = false\<close> with an
  error keyed to \<open>startLocation\<close> when the start location is empty or consists of
  white space only; and it returns \<open>isValid = true\<close> with an empty errors object when
  \<open>maxStopsPerRoute\<close> and \<open>vehicleCapacity\<close> are numbers of at least 1 and the
  start location is not blank.
\<close>

theorem validateConstraints_cases:
  "(is_object c \<and> property c ''maxStopsPerRoute'' = num 0
      \<and> plain (property c ''vehicleCapacity'') \<and> property c ''startLocation'' = JStr s
    \<longrightarrow> (\<exists>r. validateConstraints c = Inr r \<and> \<not> isValid r
             \<and> map_of (errors r) ''maxStopsPerRoute'' = Some ''Must be at least 1''))
   \<and> (is_object c1 \<and> plain (property c1 ''maxStopsPerRoute'')
      \<and> plain (property c1 ''vehicleCapacity'')
      \<and> property c1 ''startLocation'' = JStr s1 \<and> js_trim s1 = []
    \<longrightarrow> (\<exists>r. validateConstraints c1 = Inr r \<and> \<not> isValid r
             \<and> map_of (errors r) ''startLocation'' = Some ''Start location is required''))
   \<and> (is_object c2 \<and> property c2 ''maxStopsPerRoute'' = num a \<and> 1 \<le> a
      \<and> property c2 ''vehicleCapacity'' = num b \<and> 1 \<le> b
      \<and> property c2 ''startLocation'' = JStr s2 \<and> js_trim s2 \<noteq> []
    \<longrightarrow> validateConstraints c2 = Inr \<lparr>isValid = True, errors = []\<rparr>)"
proof (intro conjI impI)
  assume h: "is_object c \<and> property c ''maxStopsPerRoute'' = num 0
      \<and> plain (property c ''vehicleCapacity'') \<and> property c ''startLocation'' = JStr s"
  then obtain bc where bc: "below_one (property c ''vehicleCapacity'') = Inr bc"
    using below_one_plain by blast
  from h bc show "\<exists>r. validateConstraints c = Inr r \<and> \<not> isValid r
             \<and> map_of (errors r) ''maxStopsPerRoute'' = Some ''Must be at least 1''"
    by (cases bc; cases "js_trim s = []")
       (simp_all add: validateConstraints_def get_object below_one_number blank_string
          set_error_def)
next
  assume h: "is_object c1 \<and> plain (property c1 ''maxStopsPerRoute'')
      \<and> plain (property c1 ''vehicleCapacity'')
      \<and> property c1 ''startLocation'' = JStr s1 \<and> js_trim s1 = []"
  then obtain bm where bm: "below_one (property c1 ''maxStopsPerRoute'') = Inr bm"
    using below_one_plain by blast
  from h obtain bc where bc: "below_one (property c1 ''vehicleCapacity'') = Inr bc"
    using below_one_plain by blast
  from h bm bc show "\<exists>r. validateConstraints c1 = Inr r \<and> \<not> isValid r
             \<and> map_of (errors r) ''startLocation'' = Some ''Start location is required''"
    by (cases bm; cases bc)
       (simp_all add: validateConstraints_def get_object blank_string set_error_def)
next
  assume h: "is_object c2 \<and> property c2 ''maxStopsPerRoute'' = num a \<and> 1 \<le> a
      \<and> property c2 ''vehicleCapacity'' = num b \<and> 1 \<le> b
      \<and> property c2 ''startLocation'' = JStr s2 \<and> js_trim s2 \<noteq> []"
  then show "validateConstraints c2 = Inr \<lparr>isValid = True, errors = []\<rparr>"
    by (simp add: validateConstraints_def get_object below_one_number blank_string
          set_error_def)
qed

theorem validateConstraints_cases_witness:
  "(\<exists>r. validateConstraints
          (JObj [(''maxStopsPerRoute'', num 0), (''vehicleCapacity'', num 100),
                 (''startLocation'', JStr ''Warehouse'')]) = Inr r
        \<and> \<not> isValid r \<and> map_of (errors r) ''maxStopsPerRoute'' = Some ''Must be at least 1'')
   \<and> js_trim [CHR 0x20, CHR 0x09] = []
   \<and> (\<exists>r. validateConstraints
          (JObj [(''maxStopsPerRoute'', num 10), (''vehicleCapacity'', num 100),
                 (''startLocation'', JStr [CHR 0x20, CHR 0x09])]) = Inr r
        \<and> \<not> isValid r
        \<and> map_of (errors r) ''startLocation'' = Some ''Start location is required'')
   \<and> js_trim ''Warehouse'' \<noteq> []
   \<and> validateConstraints
        (JObj [(''maxStopsPerRoute'', num 10), (''vehicleCapacity'', num 100),
               (''startLocation'', JStr ''Warehouse'')])
      = Inr \<lparr>isValid = True, errors = []\<rparr>"
proof -
  have t1: "js_trim [CHR 0x20, CHR 0x09] = []" by code_simp
  have t2: "js_trim ''Warehouse'' \<noteq> []" by code_simp
  from validateConstraints_cases
    [of "JObj [(''maxStopsPerRoute'', num 0), (''vehicleCapacity'', num 100),
               (''startLocation'', JStr ''Warehouse'')]" "''Warehouse''"
        "JObj [(''maxStopsPerRoute'', num 10), (''vehicleCapacity'', num 100),
               (''startLocation'', JStr [CHR 0x20, CHR 0x09])]" "[CHR 0x20, CHR 0x09]"
        "JObj [(''maxStopsPerRoute'', num 10), (''vehicleCapacity'', num 100),
               (''startLocation'', JStr ''Warehouse'')]" 10 100 "''Warehouse''"]
  show ?thesis
    using t1 t2 by (simp add: property_def num_def)
qed


subsection \<open>Flattening the routes for the CSV export\<close>

lemma get_non_null: "non_null v \<Longrightarrow> get v k = Inr (property v k)"
  by (simp add: get_def non_null_def)

lemma find_point_eq:
  "list_all non_null points \<Longrightarrow> non_null stop \<Longrightarrow>
     find_point points stop
       = Inr (case List.find (\<lambda>p. strict_equal (property p ''id'') (property stop ''id'')) points of
                None \<Rightarrow> JUndefined | Some p \<Rightarrow> p)"
  by (induction points) (simp_all add: get_non_null)

lemma non_null_truthy: "ToBoolean v \<Longrightarrow> non_null v"
  by (cases v) (simp_all add: non_null_def)

lemma resolve_point_non_null: "non_null (resolve_point points stop)"
  by (auto simp: resolve_point_def js_or_def non_null_def split: option.splits)

lemma lookup_point_eq:
  assumes "non_null routeData" and "property routeData ''delivery_points'' = JArr points"
    and "list_all non_null points" and "non_null stop"
  shows "lookup_point routeData stop = Inr (resolve_point points stop)"
  using assms
  by (simp add: lookup_point_def get_non_null find_point_eq resolve_point_def js_or_def
        split: option.splits)

lemma or_empty_eq: "non_null v \<Longrightarrow> or_empty v k = Inr (js_or (property v k) (JStr []))"
  by (simp add: or_empty_def get_non_null)

lemma export_row_eq:
  assumes "non_null routeData" and "property routeData ''delivery_points'' = JArr points"
    and "list_all non_null points" and "non_null route" and "non_null stop"
  shows "export_row routeData route i stop j = Inr (flat_row points route i stop j)"
  by (simp add: export_row_def lookup_point_eq [OF assms(1,2,3,5)] get_non_null [OF assms(5)]
        or_empty_eq resolve_point_non_null assms(4,5) flat_row_def)

lemma forEach_stop_eq:
  assumes "non_null routeData" and "property routeData ''delivery_points'' = JArr points"
    and "list_all non_null points" and "non_null route"
  shows "list_all non_null stops \<Longrightarrow>
     forEach_stop routeData route i stops j rows
       = Inr (rows @ map2 (\<lambda>k stop. flat_row points route i stop k) [j..<j + length stops] stops)"
proof (induction stops arbitrary: j rows)
  case Nil
  then show ?case by simp
next
  case (Cons stop stops)
  then have st: "non_null stop" and rest: "list_all non_null stops" by simp_all
  have up: "[j..<j + length (stop # stops)] = j # [Suc j..<Suc j + length stops]"
    using upt_conv_Cons [of j "j + length (stop # stops)"] by simp
  show ?case
    unfolding up using export_row_eq [OF assms st] Cons.IH [OF rest] by simp
qed

lemma forEach_route_eq:
  assumes "non_null routeData" and "property routeData ''delivery_points'' = JArr points"
    and "list_all non_null points"
  shows "list_all well_formed_route routes \<Longrightarrow>
     forEach_route routeData routes i rows
       = Inr (rows @ concat (map2 (route_rows points) [i..<i + length routes] routes))"
proof (induction routes arbitrary: i rows)
  case Nil
  then show ?case by simp
next
  case (Cons route routes)
  then have wf: "well_formed_route route" and rest: "list_all well_formed_route routes"
    by simp_all
  from wf have nn: "non_null route" and st: "list_all non_null (stops_of route)"
    and arr: "property route ''stops'' = JArr (stops_of route)"
    by (auto simp: well_formed_route_def stops_of_def split: jsval.splits)
  have up: "[i..<i + length (route # routes)] = i # [Suc i..<Suc i + length routes]"
    using upt_conv_Cons [of i "i + length (route # routes)"] by simp
  have "forEach_stop routeData route i (stops_of route) 0 rows
          = Inr (rows @ route_rows points i route)"
    using forEach_stop_eq [OF assms nn st, of i 0 rows] by (simp add: route_rows_def)
  then show ?case
    unfolding up using Cons.IH [OF rest] by (simp add: get_non_null [OF nn] arr)
qed

text \<open>
  On a bundle whose routes hold arrays of stops, with no null stop, route or delivery
  point, the export produces one row per stop, route after route and stop after stop:
  the row carries the 1-based route index, the 1-based position of the stop in its
  route, the stop's \<open>id\<close>, and the fields of the resolved delivery point and of the
  route, each replaced by the empty string when it is falsy.
\<close>

lemma flattenedData_rows:
  assumes "non_null routeData"
    and "property routeData ''routes'' = JArr routes"
    and "property routeData ''delivery_points'' = JArr points"
    and "list_all non_null points"
    and "list_all well_formed_route routes"
  shows "flattenedData routeData = Inr (flat_rows points routes)
         \<and> handleExportCSV routeData = Exported (flat_rows points routes)
         \<and> length (flat_rows points routes) = sum_list (map (\<lambda>r. length (stops_of r)) routes)"
proof -
  have f: "flattenedData routeData = Inr (flat_rows points routes)"
    using forEach_route_eq [OF assms(1,3,4,5), of 0 "[]"]
    by (simp add: flattenedData_def get_non_null [OF assms(1)] assms(2) flat_rows_def)
  have "length (concat (map2 (route_rows points) [i..<i + length rs] rs))
          = sum_list (map (\<lambda>r. length (stops_of r)) rs)" for i rs
  proof (induction rs arbitrary: i)
    case Nil
    then show ?case by simp
  next
    case (Cons r rs)
    have up: "[i..<i + length (r # rs)] = i # [Suc i..<Suc i + length rs]"
      using upt_conv_Cons [of i "i + length (r # rs)"] by simp
    show ?case unfolding up using Cons [of "Suc i"] by (simp add: route_rows_def)
  qed
  from this [of 0 routes] have "length (flat_rows points routes)
          = sum_list (map (\<lambda>r. length (stops_of r)) routes)"
    by (simp add: flat_rows_def)
  with f show ?thesis by (simp add: handleExportCSV_def)
qed

text \<open>
  Claim C9. Each exported row is to carry the \<open>lat\<close> and \<open>lng\<close> of the delivery
  point whose \<open>id\<close> equals the stop's. For a point at latitude 0 and longitude 0 the
  row carries the empty string in both places: \<^verbatim>\<open>point.lat || ''\<close> takes the
  coordinate 0 for a missing one.
\<close>

theorem handleExportCSV_zero_latitude:
  "handleExportCSV
     (JObj [(''routes'',
             JArr [JObj [(''stops'', JArr [JObj [(''id'', num 1)]]),
                         (''total_distance'', num (25 / 2)), (''estimated_time'', num 30)]]),
            (''delivery_points'',
             JArr [JObj [(''id'', num 1), (''customer_name'', JStr ''Depot''), (''lat'', num 0),
                         (''lng'', num 0), (''address'', JStr ''1 Null Island'')]])])
   = Exported
       [JObj [(''route_id'', num 1), (''stop_sequence'', num 1), (''customer_id'', num 1),
              (''customer_name'', JStr ''Depot''), (''address'', JStr ''1 Null Island''),
              (''latitude'', JStr []), (''longitude'', JStr []), (''delivery_window'', JStr []),
              (''distance_from_previous'', JStr []), (''route_total_distance'', num (25 / 2)),
              (''route_estimated_time'', num 30)]]"
  by code_simp


end
